theory Spec2Isabelle
  imports Main "HOL-Library.Word"
begin

section \<open>Shallow embedding of \<open>scirpt3.py\<close> (class \<open>DynamicPasswordManager\<close>)\<close>

text \<open>
  The class talks to three kinds of collaborators, none of which is defined in the
  file itself:
  \<^item> the persistent store \<open>script3_sql.DatabaseConnector\<close>,
  \<^item> library primitives (argon2 \<open>PasswordHasher\<close>, \<open>PBKDF2HMAC\<close>, \<open>Fernet\<close>,
    \<open>pyotp.TOTP\<close>),
  \<^item> the outside world (\<open>time.time\<close>, \<open>os.urandom\<close>, \<open>secrets.choice\<close>, \<open>input\<close>).
  The store is a record of the rows of the one user the manager was constructed for,
  the library primitives and the outside world are fields of the record \<open>env\<close>, so
  that every theorem below holds for every hasher, every key derivation function,
  every clock and every source of randomness.

  Python \<open>str\<close> values are \<open>string\<close>s; a \<open>char\<close> stands for the code point of the
  same number, so the model covers the strings whose code points are below 256.
\<close>

subsection \<open>Values\<close>

type_synonym byte = "8 word"

text \<open>Exceptions that can leave a method of the class.\<close>

datatype error =
    ValueError string
  | InvalidToken
  | AttributeError
  | EOFError
  | InvalidHashError

text \<open>
  Outcome of \<open>PasswordHasher.verify(hash, secret)\<close>: it returns \<open>True\<close>, raises
  \<open>VerifyMismatchError\<close>, or raises another exception (a malformed stored hash).
\<close>

datatype verify_result = Verified | VerifyMismatch | InvalidHash

text \<open>
  A string handed to \<open>Fernet.decrypt\<close>. Fernet is authenticated encryption: a token
  made by \<open>Fernet(k).encrypt(p)\<close> with the fresh initialisation vector \<open>iv\<close> opens
  under \<open>k\<close> to \<open>p\<close> and under no other key; any other string is no token at all.
\<close>

datatype ctext = Token "byte list" nat string | NotToken string

definition fernet_encrypt :: "byte list \<Rightarrow> nat \<Rightarrow> string \<Rightarrow> ctext" where
  "fernet_encrypt k iv p = Token k iv p"

fun fernet_decrypt :: "byte list \<Rightarrow> ctext \<Rightarrow> error + string" where
  "fernet_decrypt k (Token k' iv p) = (if k' = k then Inr p else Inl InvalidToken)"
| "fernet_decrypt k (NotToken s) = Inl InvalidToken"

text \<open>
  One constructor for each \<open>print\<close> statement of the methods below, with the values
  it formats. The prompt that \<open>input\<close> writes is not among them.
\<close>

datatype message =
    LockedOutMsg int
  | InvalidUserMsg string
  | ErrorMsg
  | LoginFailedMsg error
  | Invalid2FAMsg
  | LockedForMsg int
  | LoadKeyMsg string
  | GeneratedMsg string
  | WalletGeneratedMsg string
  | AddErrorMsg error
  | WalletErrorMsg error

subsection \<open>The outside world\<close>

text \<open>
  \<^item> \<open>clock n\<close>: the \<open>n\<close>-th reading of \<open>int(time.time())\<close> during one operation;
  \<^item> \<open>ph_hash\<close>, \<open>ph_verify\<close>: \<open>self.ph.hash\<close> and \<open>self.ph.verify\<close>;
  \<^item> \<open>pbkdf2 password salt\<close>: \<open>base64.urlsafe_b64encode(PBKDF2HMAC(SHA256, 32, salt,
    100000).derive(password.encode()))\<close>;
  \<^item> \<open>totp_verify secret code\<close>: \<open>pyotp.TOTP(secret).verify(code)\<close>;
  \<^item> \<open>stdin\<close>: the lines the user will type;
  \<^item> \<open>urandom_src i\<close>: the \<open>i\<close>-th byte that \<open>os.urandom\<close> delivers;
  \<^item> \<open>choice_src i\<close>: the random number behind the \<open>i\<close>-th \<open>secrets.choice\<close>;
  \<^item> \<open>fernet_iv i\<close>: the initialisation vector of the \<open>i\<close>-th \<open>encrypt\<close> call.
\<close>

record env =
  clock :: "nat \<Rightarrow> int"
  ph_hash :: "string \<Rightarrow> string"
  ph_verify :: "string \<Rightarrow> string \<Rightarrow> verify_result"
  pbkdf2 :: "string \<Rightarrow> byte list \<Rightarrow> byte list"
  totp_verify :: "string \<Rightarrow> string option \<Rightarrow> bool"
  stdin :: "string list"
  urandom_src :: "nat \<Rightarrow> byte"
  choice_src :: "nat \<Rightarrow> nat"
  fernet_iv :: "nat \<Rightarrow> nat"

definition urandom :: "env \<Rightarrow> nat \<Rightarrow> byte list" where
  "urandom e n = map (urandom_src e) [0..<n]"

subsection \<open>The manager and its store\<close>

text \<open>
  Modelled from the spec: \<open>script3_sql.DatabaseConnector\<close>, the persistence layer,
  is imported by the source and is not part of it. Section 6 of the specification
  describes it as a record store keyed by user name with get, set and delete
  operations: a getter returns what the last setter stored (\<open>absent\<close> is \<open>None\<close>, no
  TOTP secret is the empty string), \<open>resetLockoutState\<close> stores \<open>{0, 0}\<close> (sections 3
  and 4.4), and no operation fails. The fields from \<open>password_hash\<close> on are the rows
  of \<open>self.username\<close>; \<open>username\<close> and \<open>fer\<close> are the attributes of the Python object
  (\<open>fer = None\<close>: the attribute has not been set, any use raises \<open>AttributeError\<close>).
\<close>

record manager =
  username :: string
  fer :: "byte list option"
  password_hash :: "string option"
  recovery_pin :: "string option"
  user_salt :: "byte list option"
  totp_secret :: string
  failed_attempts :: int
  lockout_until :: int
  sites :: "string \<rightharpoonup> ctext \<times> ctext"
  wallets :: "string \<rightharpoonup> ctext \<times> ctext \<times> ctext"

definition set_lockout_data :: "int \<Rightarrow> int \<Rightarrow> manager \<Rightarrow> manager" where
  "set_lockout_data fa lu m = m\<lparr>failed_attempts := fa, lockout_until := lu\<rparr>"

definition reset_lockout_data :: "manager \<Rightarrow> manager" where
  "reset_lockout_data m = m\<lparr>failed_attempts := 0, lockout_until := 0\<rparr>"

definition update_master_password :: "string \<Rightarrow> manager \<Rightarrow> manager" where
  "update_master_password h m = m\<lparr>password_hash := Some h\<rparr>"

definition store_user_salt :: "byte list \<Rightarrow> manager \<Rightarrow> manager" where
  "store_user_salt s m = m\<lparr>user_salt := Some s\<rparr>"

definition store_site :: "string \<Rightarrow> ctext \<Rightarrow> ctext \<Rightarrow> manager \<Rightarrow> manager" where
  "store_site site eu ep m = m\<lparr>sites := (sites m)(site \<mapsto> (eu, ep))\<rparr>"

definition store_wallet :: "string \<Rightarrow> ctext \<Rightarrow> ctext \<Rightarrow> ctext \<Rightarrow> manager \<Rightarrow> manager" where
  "store_wallet w eu ep er m = m\<lparr>wallets := (wallets m)(w \<mapsto> (eu, ep, er))\<rparr>"

text \<open>
  A value read from the store is absent (\<open>None\<close>) or a string; Python's \<open>not x\<close> is
  true of \<open>None\<close> and of the empty string alike, which is \<open>stored x = []\<close>.
\<close>

definition stored :: "'a list option \<Rightarrow> 'a list" where
  "stored x = (case x of None \<Rightarrow> [] | Some v \<Rightarrow> v)"

subsection \<open>Lockout policy\<close>

text \<open>\<open>inc_login_failure\<close>, with the clock reading it takes as its argument.\<close>

definition inc_login_failure :: "int \<Rightarrow> manager \<Rightarrow> manager \<times> message list" where
  "inc_login_failure current_time m =
     (let fa = failed_attempts m + 1 in
      if fa \<ge> 5 then
        (let lockout_duration_minutes = 3 * 2 ^ nat (fa - 5) in
         (set_lockout_data fa (current_time + lockout_duration_minutes * 60) m,
          [LockedForMsg lockout_duration_minutes]))
      else (set_lockout_data fa 0 m, []))"

subsection \<open>Python string operations\<close>

text \<open>
  \<open>str.strip()\<close> removes the white space of both ends and \<open>str.lower()\<close> maps each
  upper-case letter to its lower-case one; below code point 256 the white space is
  9 to 13, 28 to 32, 133 and 160, and the upper-case letters are 65 to 90 and 192 to
  222 without 215, each 32 below its lower-case letter.
\<close>

definition is_space :: "char \<Rightarrow> bool" where
  "is_space c = (let n = (of_char c :: nat) in
     (9 \<le> n \<and> n \<le> 13) \<or> (28 \<le> n \<and> n \<le> 32) \<or> n = 133 \<or> n = 160)"

definition py_strip :: "string \<Rightarrow> string" where
  "py_strip s = rev (dropWhile is_space (rev (dropWhile is_space s)))"

definition lower_char :: "char \<Rightarrow> char" where
  "lower_char c = (let n = (of_char c :: nat) in
     if (65 \<le> n \<and> n \<le> 90) \<or> (192 \<le> n \<and> n \<le> 222 \<and> n \<noteq> 215)
     then char_of (n + 32) else c)"

definition py_lower :: "string \<Rightarrow> string" where
  "py_lower s = map lower_char s"

text \<open>\<open>p in s\<close> for strings.\<close>

fun py_in :: "string \<Rightarrow> string \<Rightarrow> bool" where
  "py_in p [] = (p = [])"
| "py_in p (c # cs) = (take (length p) (c # cs) = p \<or> py_in p cs)"

text \<open>\<open>a or b\<close> for strings.\<close>

definition py_or :: "string \<Rightarrow> string \<Rightarrow> string" where
  "py_or a b = (if a = [] then b else a)"

subsection \<open>Password generation\<close>

text \<open>
  \<open>string.ascii_letters + string.digits + string.punctuation\<close>. The punctuation is
  the characters 33 to 47, 58 to 64, 91 to 96 and 123 to 126, in this order.
\<close>

definition ascii_letters :: string where
  "ascii_letters = ''abcdefghijklmnopqrstuvwxyzABCDEFGHIJKLMNOPQRSTUVWXYZ''"

definition digits :: string where
  "digits = ''0123456789''"

definition punctuation :: string where
  "punctuation = map char_of ([33..<48] @ [58..<65] @ [91..<97] @ [123..<127])"

definition alphabet :: string where
  "alphabet = ascii_letters @ digits @ punctuation"

text \<open>
  \<open>secrets.choice(seq)\<close> is \<open>seq[randbelow(len(seq))]\<close>; the random number \<open>r\<close>
  behind the call is reduced to the range of indices. The only sequence it is applied
  to is the alphabet, which is not empty.
\<close>

definition secrets_choice :: "'a list \<Rightarrow> nat \<Rightarrow> 'a" where
  "secrets_choice seq r = seq ! (r mod length seq)"

definition generate_secure_password :: "(nat \<Rightarrow> nat) \<Rightarrow> nat \<Rightarrow> string" where
  "generate_secure_password src len = map (\<lambda>i. secrets_choice alphabet (src i)) [0..<len]"

subsection \<open>Console input\<close>

text \<open>
  \<open>get_secure_input\<close> reads lines until one contains \<open>esc\<close> (in any case; the result
  is \<open>None\<close>) or is not empty (the result is that line). \<open>input()\<close> raises \<open>EOFError\<close>
  when there is no line left.
\<close>

fun get_secure_input :: "string list \<Rightarrow> error + string option" where
  "get_secure_input [] = Inl EOFError"
| "get_secure_input (user_input # rest) =
     (if py_in ''esc'' (py_lower user_input) then Inr None
      else if user_input \<noteq> [] then Inr (Some user_input)
      else get_secure_input rest)"

subsection \<open>Recovery PIN and master password\<close>

definition verify_recovery_pin :: "env \<Rightarrow> string \<Rightarrow> manager \<Rightarrow> (error + bool) \<times> manager" where
  "verify_recovery_pin e pin m =
     (let stored_pin = stored (recovery_pin m) in
      if stored_pin = [] then (Inr False, m)
      else (case ph_verify e stored_pin pin of
              Verified \<Rightarrow> (Inr True, m)
            | VerifyMismatch \<Rightarrow> (Inr False, m)
            | InvalidHash \<Rightarrow> (Inl InvalidHashError, m)))"

definition reset_master_password :: "env \<Rightarrow> string \<Rightarrow> manager \<Rightarrow> manager" where
  "reset_master_password e new_password m =
     (let hash_value = ph_hash e new_password;
          m1 = update_master_password hash_value m;
          m2 = (if stored (user_salt m1) = [] then store_user_salt (urandom e 16) m1 else m1);
          salt = (if stored (user_salt m1) = [] then urandom e 16 else stored (user_salt m1))
      in m2\<lparr>fer := Some (pbkdf2 e new_password salt)\<rparr>)"

subsection \<open>Authentication\<close>

definition verify_2fa :: "env \<Rightarrow> manager \<Rightarrow> (error + bool) \<times> message list" where
  "verify_2fa e m =
     (if totp_secret m = [] then (Inr True, [])
      else (case get_secure_input (stdin e) of
              Inl err \<Rightarrow> (Inl err, [])
            | Inr code \<Rightarrow>
                if totp_verify e (totp_secret m) code then (Inr True, [])
                else (Inr False, [Invalid2FAMsg])))"

text \<open>
  \<open>verify_master_password\<close>. The \<open>try\<close> block is the sequence of tests; the handler
  of \<open>VerifyMismatchError\<close> is the branch \<open>VerifyMismatch\<close>, the handler of
  \<open>Exception\<close> the branches that print \<open>LoginFailedMsg\<close>. The clock is read once
  here and once more in \<open>inc_login_failure\<close>.
\<close>

definition verify_master_password ::
  "env \<Rightarrow> string \<Rightarrow> manager \<Rightarrow> bool \<times> manager \<times> message list" where
  "verify_master_password e master_password m =
     (let current_time = clock e 0 in
      if current_time < lockout_until m then
        (False, m, [LockedOutMsg (lockout_until m - current_time)])
      else if stored (password_hash m) = [] then
        (False, m, [InvalidUserMsg (username m)])
      else (case ph_verify e (stored (password_hash m)) master_password of
              VerifyMismatch \<Rightarrow>
                (let (m', out) = inc_login_failure (clock e 1) m
                 in (False, m', out @ [ErrorMsg]))
            | InvalidHash \<Rightarrow> (False, m, [LoginFailedMsg InvalidHashError])
            | Verified \<Rightarrow>
                if totp_secret m \<noteq> [] then
                  (case verify_2fa e m of
                     (Inl err, out) \<Rightarrow> (False, m, out @ [LoginFailedMsg err])
                   | (Inr False, out) \<Rightarrow> (False, m, out)
                   | (Inr True, out) \<Rightarrow> (True, reset_lockout_data m, out))
                else (True, reset_lockout_data m, [])))"

definition load_key ::
  "env \<Rightarrow> string \<Rightarrow> manager \<Rightarrow> (error + unit) \<times> manager \<times> message list" where
  "load_key e master_password m =
     (case verify_master_password e master_password m of
        (False, m', out) \<Rightarrow>
          (Inl (ValueError ''Invalid master password''), m',
           out @ [LoadKeyMsg ''Invalid master password''])
      | (True, m', out) \<Rightarrow>
          if stored (user_salt m') = [] then
            (Inl (ValueError ''User salt not found''), m',
             out @ [LoadKeyMsg ''User salt not found''])
          else
            (Inr (), m'\<lparr>fer := Some (pbkdf2 e master_password (stored (user_salt m')))\<rparr>,
             out))"

subsection \<open>Site credentials and wallets\<close>

text \<open>\<open>self.fer.decrypt(c)\<close>: the attribute is read first, then the token is opened.\<close>

definition decrypt_field :: "byte list option \<Rightarrow> ctext \<Rightarrow> error + string" where
  "decrypt_field f c = (case f of None \<Rightarrow> Inl AttributeError | Some k \<Rightarrow> fernet_decrypt k c)"

text \<open>\<open>self.fer.decrypt(c) if c else ""\<close>, as \<open>get_wallet\<close> reads each field.\<close>

definition wallet_field :: "byte list option \<Rightarrow> ctext \<Rightarrow> error + string" where
  "wallet_field f c = (if c = NotToken [] then Inr [] else decrypt_field f c)"

definition add_credentials ::
  "env \<Rightarrow> string \<Rightarrow> string \<Rightarrow> string \<Rightarrow> manager \<Rightarrow> bool \<times> manager \<times> message list" where
  "add_credentials e site uname password m =
     (let uname1 = (if uname = ''0'' then [] else uname);
          gen = (py_lower (py_strip password) = ''gen'');
          password1 = (if gen then generate_secure_password (choice_src e) 25 else password);
          out = (if gen then [GeneratedMsg password1] else []);
          password2 = (if password1 = ''0'' then [] else password1)
      in (case fer m of
            None \<Rightarrow> (False, m, out @ [AddErrorMsg AttributeError])
          | Some k \<Rightarrow>
              (True,
               store_site site (fernet_encrypt k (fernet_iv e 0) uname1)
                 (fernet_encrypt k (fernet_iv e 1) password2) m,
               out)))"

definition get_credentials ::
  "env \<Rightarrow> string \<Rightarrow> string \<Rightarrow> manager
     \<Rightarrow> (error + (string \<times> string) option) \<times> manager \<times> message list" where
  "get_credentials e site master_password m =
     (case verify_master_password e master_password m of
        (False, m', out) \<Rightarrow> (Inl (ValueError ''Invalid master password''), m', out)
      | (True, m', out) \<Rightarrow>
          (case sites m' site of
             None \<Rightarrow> (Inr None, m', out)
           | Some (r0, r1) \<Rightarrow>
               (case decrypt_field (fer m') r0 of
                  Inl err \<Rightarrow> (Inl err, m', out)
                | Inr decrypted_username \<Rightarrow>
                    (case decrypt_field (fer m') r1 of
                       Inl err \<Rightarrow> (Inl err, m', out)
                     | Inr decrypted_password \<Rightarrow>
                         (Inr (Some (py_or decrypted_username ''No username'',
                                     py_or decrypted_password ''No password'')),
                          m', out)))))"

definition add_wallet ::
  "env \<Rightarrow> string \<Rightarrow> string \<Rightarrow> string \<Rightarrow> string \<Rightarrow> string \<Rightarrow> string \<Rightarrow> manager
     \<Rightarrow> (error + unit) \<times> manager \<times> message list" where
  "add_wallet e wallet_name uname password recovery_phrase master_password pin m =
     (case fst (verify_recovery_pin e pin m) of
        Inl err \<Rightarrow> (Inl err, m, [])
      | Inr False \<Rightarrow> (Inl (ValueError ''Invalid PIN''), m, [])
      | Inr True \<Rightarrow>
          (let uname1 = (if uname = ''0'' then [] else uname);
               gen = (py_lower (py_strip password) = ''gen'');
               password1 = (if gen then generate_secure_password (choice_src e) 25
                            else password);
               out = (if gen then [WalletGeneratedMsg password1] else []);
               password2 = (if password1 = ''0'' then [] else password1);
               recovery_phrase1 = (if recovery_phrase = ''0'' then [] else recovery_phrase)
           in (case fer m of
                 None \<Rightarrow> (Inl AttributeError, m, out)
               | Some k \<Rightarrow>
                   (Inr (),
                    store_wallet wallet_name (fernet_encrypt k (fernet_iv e 0) uname1)
                      (fernet_encrypt k (fernet_iv e 1) password2)
                      (fernet_encrypt k (fernet_iv e 2) recovery_phrase1) m,
                    out))))"

text \<open>
  \<open>get_wallet\<close>: an exception of the decryption is caught, printed, and the method
  returns \<open>None\<close>.
\<close>

definition get_wallet ::
  "env \<Rightarrow> string \<Rightarrow> string \<Rightarrow> string \<Rightarrow> manager
     \<Rightarrow> (error + (string \<times> string \<times> string) option) \<times> manager \<times> message list" where
  "get_wallet e wallet_name master_password pin m =
     (case fst (verify_recovery_pin e pin m) of
        Inl err \<Rightarrow> (Inl err, m, [])
      | Inr False \<Rightarrow> (Inl (ValueError ''Invalid PIN''), m, [])
      | Inr True \<Rightarrow>
          (case wallets m wallet_name of
             None \<Rightarrow> (Inr None, m, [])
           | Some (r0, r1, r2) \<Rightarrow>
               (case wallet_field (fer m) r0 of
                  Inl err \<Rightarrow> (Inr None, m, [WalletErrorMsg err])
                | Inr decrypted_username \<Rightarrow>
                    (case wallet_field (fer m) r1 of
                       Inl err \<Rightarrow> (Inr None, m, [WalletErrorMsg err])
                     | Inr decrypted_password \<Rightarrow>
                         (case wallet_field (fer m) r2 of
                            Inl err \<Rightarrow> (Inr None, m, [WalletErrorMsg err])
                          | Inr decrypted_recovery \<Rightarrow>
                              (Inr (Some (py_or decrypted_username ''No username'',
                                          py_or decrypted_password ''No password'',
                                          py_or decrypted_recovery ''No recovery phrase'')),
                               m, []))))))"

subsection \<open>A concrete user\<close>

text \<open>
  A hasher that writes \<open>h:\<close> in front of the secret, a key derivation that puts the
  salt in front of the password's bytes, a TOTP whose only valid code is \<open>123456\<close>.
\<close>

definition toy_verify :: "string \<Rightarrow> string \<Rightarrow> verify_result" where
  "toy_verify h s = (if take 2 h \<noteq> ''h:'' then InvalidHash
                     else if h = ''h:'' @ s then Verified else VerifyMismatch)"

definition toy_env :: env where
  "toy_env = \<lparr> clock = (\<lambda>n. 1000 + int n),
               ph_hash = (\<lambda>s. ''h:'' @ s),
               ph_verify = toy_verify,
               pbkdf2 = (\<lambda>p salt. salt @ map of_char p),
               totp_verify = (\<lambda>secret code. code = Some ''123456''),
               stdin = [''000000''],
               urandom_src = (\<lambda>i. of_nat i),
               choice_src = (\<lambda>i. i),
               fernet_iv = (\<lambda>i. i) \<rparr>"

definition alice :: manager where
  "alice = \<lparr> username = ''alice'', fer = None,
             password_hash = Some ''h:Tr0ub4dor&3'', recovery_pin = Some ''h:123456'',
             user_salt = Some [1, 2, 3, 4, 5, 6, 7, 8, 9, 10, 11, 12, 13, 14, 15, 16],
             totp_secret = [], failed_attempts = 0, lockout_until = 0,
             sites = Map.empty, wallets = Map.empty \<rparr>"

definition locked_alice :: manager where
  "locked_alice = alice\<lparr>failed_attempts := 5, lockout_until := 1180\<rparr>"

definition alice_2fa :: manager where
  "alice_2fa = alice\<lparr>totp_secret := ''JBSWY3DPEHPK3PXP'', failed_attempts := 2\<rparr>"

definition alice_session :: manager where
  "alice_session = alice\<lparr>fer := Some (pbkdf2 toy_env ''Tr0ub4dor&3'' (stored (user_salt alice)))\<rparr>"

definition alice_site :: manager where
  "alice_site = fst (snd (add_credentials toy_env ''example.com'' ''alice'' ''s3cret'' alice_session))"

definition alice_empty :: manager where
  "alice_empty = fst (snd (add_credentials toy_env ''example.com'' ''0'' ''0'' alice_session))"

definition alice_vault :: manager where
  "alice_vault = fst (snd (add_wallet toy_env ''btc'' ''satoshi'' ''0'' ''0'' ''Tr0ub4dor&3''
                            ''123456'' alice_site))"

definition other_choice :: "nat \<Rightarrow> nat" where
  "other_choice i = i + 1"

definition alice_blank_wallet :: manager where
  "alice_blank_wallet = fst (snd (add_wallet toy_env ''btc'' ''0'' ''0'' ''0'' ''Tr0ub4dor&3''
                                   ''123456'' alice_session))"

text \<open>
  The attempts that pass every test of \<open>verify_master_password\<close>: no lockout in force,
  a stored hash, a password that verifies and, with a TOTP secret enrolled, a valid code.
\<close>

definition full_success :: "env \<Rightarrow> string \<Rightarrow> manager \<Rightarrow> bool" where
  "full_success e pw m \<longleftrightarrow>
     \<not> clock e 0 < lockout_until m \<and> stored (password_hash m) \<noteq> []
     \<and> ph_verify e (stored (password_hash m)) pw = Verified
     \<and> (totp_secret m = [] \<or> fst (verify_2fa e m) = Inr True)"

section \<open>Properties\<close>

text \<open>
  Claim C1. While the clock is before \<open>lockout_until\<close>, \<open>verify_master_password\<close>
  returns \<open>False\<close> at once: the result is the same for every hasher and every
  password, the correct one included, the store is left as it was, and the one message
  printed carries the remaining seconds \<open>lockout_until - now\<close>.
\<close>

theorem locked_out_short_circuit:
  assumes "clock e 0 < lockout_until m"
  shows "verify_master_password e master_password m
           = (False, m, [LockedOutMsg (lockout_until m - clock e 0)])"
  using assms by (simp add: verify_master_password_def)

theorem locked_out_short_circuit_witness:
  "clock toy_env 0 < lockout_until locked_alice
   \<and> ph_verify toy_env (stored (password_hash locked_alice)) ''Tr0ub4dor&3'' = Verified
   \<and> verify_master_password toy_env ''Tr0ub4dor&3'' locked_alice
       = (False, locked_alice, [LockedOutMsg 180])"
  using locked_out_short_circuit [of toy_env locked_alice "''Tr0ub4dor&3''"]
  by (simp add: toy_env_def locked_alice_def alice_def stored_def toy_verify_def)

subsection \<open>Escalation\<close>

lemma inc_login_failure_count:
  "failed_attempts (fst (inc_login_failure t m)) = failed_attempts m + 1"
  by (simp add: inc_login_failure_def set_lockout_data_def Let_def)

lemma inc_login_failure_until:
  "lockout_until (fst (inc_login_failure t m)) =
     (if failed_attempts m + 1 \<ge> 5
      then t + (3 * 2 ^ nat (failed_attempts m + 1 - 5)) * 60 else 0)"
  by (simp add: inc_login_failure_def set_lockout_data_def Let_def)

text \<open>
  Claim C2. \<open>inc_login_failure\<close> adds one to the failure counter. When the new count
  is at least 5 the stored \<open>lockout_until\<close> is the clock reading plus
  \<open>3 * 2 ^ (count - 5)\<close> minutes (3 minutes at 5, 6 at 6, 12 at 7, twice as long for
  each further failure); when the new count is below 5 the stored \<open>lockout_until\<close>
  is 0.
\<close>

theorem inc_login_failure_escalation:
  fixes t :: int and m :: manager
  defines "m' \<equiv> fst (inc_login_failure t m)"
  defines "c \<equiv> failed_attempts m + 1"
  shows "failed_attempts m' = c
       \<and> (5 \<le> c \<longrightarrow> lockout_until m' = t + (3 * 2 ^ nat (c - 5)) * 60)
       \<and> (c < 5 \<longrightarrow> lockout_until m' = 0)
       \<and> (c = 5 \<longrightarrow> lockout_until m' = t + 3 * 60)
       \<and> (c = 6 \<longrightarrow> lockout_until m' = t + 6 * 60)
       \<and> (c = 7 \<longrightarrow> lockout_until m' = t + 12 * 60)
       \<and> (5 \<le> c \<longrightarrow> lockout_until (fst (inc_login_failure t m')) - t
                         = 2 * (lockout_until m' - t))"
proof -
  have step: "nat (c - 4) = Suc (nat (c - 5))" if "5 \<le> c"
    using that by simp
  have "5 \<le> c \<longrightarrow> lockout_until (fst (inc_login_failure t m')) - t
                         = 2 * (lockout_until m' - t)"
    unfolding m'_def
    by (simp add: inc_login_failure_count inc_login_failure_until c_def [symmetric] step)
  moreover have "failed_attempts m' = c"
    unfolding m'_def c_def by (simp add: inc_login_failure_count)
  moreover have "lockout_until m' = (if 5 \<le> c then t + (3 * 2 ^ nat (c - 5)) * 60 else 0)"
    unfolding m'_def c_def by (simp add: inc_login_failure_until)
  ultimately show ?thesis
    by simp
qed

theorem inc_login_failure_escalation_witness:
  "failed_attempts (fst (inc_login_failure 1000 (alice\<lparr>failed_attempts := 4\<rparr>))) = 5
   \<and> lockout_until (fst (inc_login_failure 1000 (alice\<lparr>failed_attempts := 4\<rparr>))) = 1180
   \<and> lockout_until (fst (inc_login_failure 1000 (alice\<lparr>failed_attempts := 5\<rparr>))) = 1360
   \<and> lockout_until (fst (inc_login_failure 1000 (alice\<lparr>failed_attempts := 6\<rparr>))) = 1720
   \<and> lockout_until (fst (inc_login_failure 1000 (alice\<lparr>failed_attempts := 2\<rparr>))) = 0"
  using inc_login_failure_escalation [where t = 1000 and m = "alice\<lparr>failed_attempts := 4\<rparr>"]
    inc_login_failure_escalation [where t = 1000 and m = "alice\<lparr>failed_attempts := 5\<rparr>"]
    inc_login_failure_escalation [where t = 1000 and m = "alice\<lparr>failed_attempts := 6\<rparr>"]
    inc_login_failure_escalation [where t = 1000 and m = "alice\<lparr>failed_attempts := 2\<rparr>"]
  by (simp add: alice_def)

subsection \<open>Outcome of an authentication attempt\<close>

lemma verify_2fa_cases:
  "fst (verify_2fa e m) = Inr True \<longleftrightarrow>
     totp_secret m = [] \<or> (\<exists>code. get_secure_input (stdin e) = Inr code \<and> totp_verify e (totp_secret m) code)"
  by (auto simp: verify_2fa_def split: sum.splits)

lemma vmp_ok: "fst (verify_master_password e pw m) = full_success e pw m"
  by (auto simp: verify_master_password_def full_success_def Let_def verify_2fa_def
      split: verify_result.splits prod.splits sum.splits bool.splits)

lemma vmp_state:
  "fst (snd (verify_master_password e pw m)) =
     (if full_success e pw m then reset_lockout_data m
      else if \<not> clock e 0 < lockout_until m \<and> stored (password_hash m) \<noteq> []
              \<and> ph_verify e (stored (password_hash m)) pw = VerifyMismatch
           then fst (inc_login_failure (clock e 1) m)
      else m)"
  by (auto simp: verify_master_password_def full_success_def Let_def verify_2fa_def
      split: verify_result.splits prod.splits sum.splits bool.splits)

text \<open>
  Claim C3. An attempt that succeeds leaves the lockout state at
  \<open>failed_attempts = 0\<close>, \<open>lockout_until = 0\<close>, and it succeeds only when the
  password has verified and, with a TOTP secret enrolled, a code was read and accepted.
  An attempt that fails leaves the store as it was or, after a password mismatch, as
  \<open>inc_login_failure\<close> leaves it. In particular an attempt whose password verifies
  and whose enrolled second factor fails is denied and changes nothing.
\<close>

theorem reset_only_after_every_factor:
  fixes e :: env and pw :: string and m :: manager
  defines "r \<equiv> verify_master_password e pw m"
  shows "(fst r \<longrightarrow> fst (snd r) = reset_lockout_data m
                  \<and> failed_attempts (fst (snd r)) = 0 \<and> lockout_until (fst (snd r)) = 0
                  \<and> ph_verify e (stored (password_hash m)) pw = Verified
                  \<and> (totp_secret m \<noteq> [] \<longrightarrow>
                       (\<exists>code. get_secure_input (stdin e) = Inr code
                              \<and> totp_verify e (totp_secret m) code)))
       \<and> (\<not> fst r \<longrightarrow> fst (snd r) = m
                    \<or> (ph_verify e (stored (password_hash m)) pw = VerifyMismatch
                        \<and> fst (snd r) = fst (inc_login_failure (clock e 1) m)))
       \<and> (ph_verify e (stored (password_hash m)) pw = Verified \<and> totp_secret m \<noteq> []
            \<and> fst (verify_2fa e m) \<noteq> Inr True \<longrightarrow> \<not> fst r \<and> fst (snd r) = m)"
proof -
  have ok: "fst r = full_success e pw m"
    unfolding r_def by (rule vmp_ok)
  have st: "fst (snd r) =
     (if full_success e pw m then reset_lockout_data m
      else if \<not> clock e 0 < lockout_until m \<and> stored (password_hash m) \<noteq> []
              \<and> ph_verify e (stored (password_hash m)) pw = VerifyMismatch
           then fst (inc_login_failure (clock e 1) m)
      else m)"
    unfolding r_def by (rule vmp_state)
  have two: "fst (verify_2fa e m) = Inr True \<longleftrightarrow>
     totp_secret m = [] \<or> (\<exists>code. get_secure_input (stdin e) = Inr code \<and> totp_verify e (totp_secret m) code)"
    by (rule verify_2fa_cases)
  show ?thesis
    unfolding ok st using two
    by (auto simp: full_success_def reset_lockout_data_def)
qed

theorem reset_only_after_every_factor_witness:
  "fst (verify_master_password toy_env ''Tr0ub4dor&3'' (alice\<lparr>failed_attempts := 3\<rparr>))
   \<and> failed_attempts (fst (snd (verify_master_password toy_env ''Tr0ub4dor&3''
         (alice\<lparr>failed_attempts := 3\<rparr>)))) = 0
   \<and> lockout_until (fst (snd (verify_master_password toy_env ''Tr0ub4dor&3''
         (alice\<lparr>failed_attempts := 3\<rparr>)))) = 0
   \<and> ph_verify toy_env (stored (password_hash alice_2fa)) ''Tr0ub4dor&3'' = Verified
   \<and> totp_secret alice_2fa \<noteq> []
   \<and> fst (verify_2fa toy_env alice_2fa) \<noteq> Inr True
   \<and> \<not> fst (verify_master_password toy_env ''Tr0ub4dor&3'' alice_2fa)
   \<and> failed_attempts (fst (snd (verify_master_password toy_env ''Tr0ub4dor&3'' alice_2fa))) = 2"
proof -
  have a: "fst (verify_master_password toy_env ''Tr0ub4dor&3'' (alice\<lparr>failed_attempts := 3\<rparr>))"
    by (simp add: verify_master_password_def toy_env_def alice_def stored_def toy_verify_def)
  have b: "ph_verify toy_env (stored (password_hash alice_2fa)) ''Tr0ub4dor&3'' = Verified"
    by (simp add: toy_env_def alice_2fa_def alice_def stored_def toy_verify_def)
  have c: "totp_secret alice_2fa \<noteq> []"
    by (simp add: alice_2fa_def)
  have d: "fst (verify_2fa toy_env alice_2fa) \<noteq> Inr True"
    by (simp add: verify_2fa_def toy_env_def alice_2fa_def alice_def py_lower_def
        lower_char_def)
  have e: "failed_attempts alice_2fa = 2"
    by (simp add: alice_2fa_def)
  show ?thesis
    using reset_only_after_every_factor [of toy_env "''Tr0ub4dor&3''" "alice\<lparr>failed_attempts := 3\<rparr>"]
      reset_only_after_every_factor [of toy_env "''Tr0ub4dor&3''" alice_2fa] a b c d e
    by (simp add: reset_lockout_data_def)
qed

text \<open>
  Claim C4, as stated, fails. The claim says that a wrong TOTP code after a verified
  password adds one to \<open>failed_attempts\<close>, as a wrong password does. For the user
  below the password verifies, the code \<open>000000\<close> is refused, and the counter stays
  at its value, while a wrong password moves it up by one.
\<close>

theorem failed_second_factor_counterexample:
  "totp_secret alice_2fa \<noteq> []
   \<and> ph_verify toy_env (stored (password_hash alice_2fa)) ''Tr0ub4dor&3'' = Verified
   \<and> get_secure_input (stdin toy_env) = Inr (Some ''000000'')
   \<and> \<not> totp_verify toy_env (totp_secret alice_2fa) (Some ''000000'')
   \<and> failed_attempts (fst (snd (verify_master_password toy_env ''Tr0ub4dor&3'' alice_2fa)))
        \<noteq> failed_attempts alice_2fa + 1
   \<and> failed_attempts (fst (snd (verify_master_password toy_env ''Tr0ub4dor&3'' alice_2fa)))
        = failed_attempts alice_2fa
   \<and> failed_attempts (fst (snd (verify_master_password toy_env ''wrong'' alice_2fa)))
        = failed_attempts alice_2fa + 1"
  by (simp add: verify_master_password_def verify_2fa_def inc_login_failure_def
      set_lockout_data_def toy_env_def alice_2fa_def alice_def stored_def toy_verify_def
      py_lower_def lower_char_def)

text \<open>
  Claim C4, amended. With a TOTP secret enrolled and no lockout in force, an attempt
  whose password verifies and whose code is refused returns \<open>False\<close> as a password
  mismatch does, prints \<open>Invalid 2FA code.\<close>, and leaves the store, with
  \<open>failed_attempts\<close> and \<open>lockout_until\<close>, unchanged; only the password mismatch
  adds one to \<open>failed_attempts\<close>.
\<close>

theorem failed_second_factor_leaves_counter:
  assumes "\<not> clock e 0 < lockout_until m"
    and "ph_verify e (stored (password_hash m)) pw = Verified"
    and "stored (password_hash m) \<noteq> []"
    and "totp_secret m \<noteq> []"
    and "get_secure_input (stdin e) = Inr code"
    and "\<not> totp_verify e (totp_secret m) code"
    and "ph_verify e (stored (password_hash m)) pw' = VerifyMismatch"
  shows "verify_master_password e pw m = (False, m, [Invalid2FAMsg])
       \<and> \<not> fst (verify_master_password e pw' m)
       \<and> failed_attempts (fst (snd (verify_master_password e pw' m))) = failed_attempts m + 1"
proof -
  have "verify_master_password e pw m = (False, m, [Invalid2FAMsg])"
    using assms by (simp add: verify_master_password_def verify_2fa_def)
  moreover have "\<not> fst (verify_master_password e pw' m)"
    using assms by (simp add: vmp_ok full_success_def)
  moreover have "failed_attempts (fst (snd (verify_master_password e pw' m)))
                   = failed_attempts m + 1"
    using assms by (simp add: vmp_state full_success_def inc_login_failure_count)
  ultimately show ?thesis
    by simp
qed

theorem failed_second_factor_leaves_counter_witness:
  "verify_master_password toy_env ''Tr0ub4dor&3'' alice_2fa = (False, alice_2fa, [Invalid2FAMsg])
   \<and> failed_attempts (fst (snd (verify_master_password toy_env ''wrong'' alice_2fa))) = 3"
proof -
  have a: "\<not> clock toy_env 0 < lockout_until alice_2fa"
    by (simp add: toy_env_def alice_2fa_def alice_def)
  have b: "ph_verify toy_env (stored (password_hash alice_2fa)) ''Tr0ub4dor&3'' = Verified"
    by (simp add: toy_env_def alice_2fa_def alice_def stored_def toy_verify_def)
  have b': "ph_verify toy_env (stored (password_hash alice_2fa)) ''wrong'' = VerifyMismatch"
    by (simp add: toy_env_def alice_2fa_def alice_def stored_def toy_verify_def)
  have c: "stored (password_hash alice_2fa) \<noteq> []"
    by (simp add: alice_2fa_def alice_def stored_def)
  have d: "totp_secret alice_2fa \<noteq> []"
    by (simp add: alice_2fa_def)
  have f: "get_secure_input (stdin toy_env) = Inr (Some ''000000'')"
    by (simp add: toy_env_def py_lower_def lower_char_def)
  have g: "\<not> totp_verify toy_env (totp_secret alice_2fa) (Some ''000000'')"
    by (simp add: toy_env_def)
  have h: "failed_attempts alice_2fa = 2"
    by (simp add: alice_2fa_def)
  show ?thesis
    using failed_second_factor_leaves_counter [OF a b c d f g b'] h by simp
qed

subsection \<open>Recovery PIN\<close>

text \<open>
  Claim C7. \<open>verify_recovery_pin\<close> leaves the store, and with it \<open>failed_attempts\<close>
  and \<open>lockout_until\<close>, unchanged; its result does not depend on the lockout state,
  nor on anything but the stored PIN hash; and the result is the boolean
  "a PIN hash is stored and the PIN verifies against it" whenever the hasher answers
  with a match or a mismatch (a malformed stored hash makes \<open>self.ph.verify\<close> raise
  another exception, which the method does not catch).
\<close>

theorem recovery_pin_bypasses_lockout:
  "snd (verify_recovery_pin e pin m) = m
   \<and> fst (verify_recovery_pin e pin (m\<lparr>failed_attempts := fa, lockout_until := lu\<rparr>))
       = fst (verify_recovery_pin e pin m)
   \<and> (recovery_pin m2 = recovery_pin m \<longrightarrow>
        fst (verify_recovery_pin e pin m2) = fst (verify_recovery_pin e pin m))
   \<and> fst (verify_recovery_pin e pin m)
       = (if stored (recovery_pin m) \<noteq> []
             \<and> ph_verify e (stored (recovery_pin m)) pin = InvalidHash
          then Inl InvalidHashError
          else Inr (stored (recovery_pin m) \<noteq> []
                    \<and> ph_verify e (stored (recovery_pin m)) pin = Verified))"
  by (simp add: verify_recovery_pin_def Let_def split: verify_result.splits)

theorem recovery_pin_bypasses_lockout_witness:
  "clock toy_env 0 < lockout_until locked_alice
   \<and> verify_recovery_pin toy_env ''123456'' locked_alice = (Inr True, locked_alice)
   \<and> verify_recovery_pin toy_env ''000000'' locked_alice = (Inr False, locked_alice)
   \<and> fst (verify_recovery_pin toy_env ''123456'' locked_alice)
       = fst (verify_recovery_pin toy_env ''123456'' alice)"
proof -
  have a: "recovery_pin locked_alice = recovery_pin alice"
    by (simp add: locked_alice_def)
  have b: "clock toy_env 0 < lockout_until locked_alice"
    by (simp add: toy_env_def locked_alice_def)
  have c: "stored (recovery_pin locked_alice) = ''h:123456''"
    by (simp add: locked_alice_def alice_def stored_def)
  have d: "ph_verify toy_env ''h:123456'' ''123456'' = Verified"
    "ph_verify toy_env ''h:123456'' ''000000'' = VerifyMismatch"
    by (simp_all add: toy_env_def toy_verify_def)
  show ?thesis
    using recovery_pin_bypasses_lockout [of toy_env "''123456''" locked_alice _ _ alice]
      recovery_pin_bypasses_lockout [of toy_env "''000000''" locked_alice _ _ alice] a b c d
    by (simp add: prod_eq_iff)
qed

subsection \<open>Salt and session key\<close>

lemma vmp_frame:
  "user_salt (fst (snd (verify_master_password e pw m))) = user_salt m"
  "fer (fst (snd (verify_master_password e pw m))) = fer m"
  "sites (fst (snd (verify_master_password e pw m))) = sites m"
  "wallets (fst (snd (verify_master_password e pw m))) = wallets m"
  "password_hash (fst (snd (verify_master_password e pw m))) = password_hash m"
  by (simp_all add: vmp_state reset_lockout_data_def inc_login_failure_def
      set_lockout_data_def Let_def)

lemma length_urandom: "length (urandom e n) = n"
  by (simp add: urandom_def)

lemma load_key_result:
  "fst (load_key e pw m) =
     (if \<not> fst (verify_master_password e pw m) then Inl (ValueError ''Invalid master password'')
      else if stored (user_salt m) = [] then Inl (ValueError ''User salt not found'')
      else Inr ())"
proof -
  obtain ok m' out where r: "verify_master_password e pw m = (ok, m', out)"
    by (cases "verify_master_password e pw m") 
  have "user_salt m' = user_salt m"
    using vmp_frame(1) [of e pw m] r by simp
  then show ?thesis
    using r by (simp add: load_key_def split: bool.splits)
qed

lemma load_key_salt: "user_salt (fst (snd (load_key e pw m))) = user_salt m"
proof -
  obtain ok m' out where r: "verify_master_password e pw m = (ok, m', out)"
    by (cases "verify_master_password e pw m") 
  have "user_salt m' = user_salt m"
    using vmp_frame(1) [of e pw m] r by simp
  then show ?thesis
    using r by (simp add: load_key_def split: bool.splits)
qed

lemma load_key_fer:
  "fer (fst (snd (load_key e pw m))) =
     (if fst (verify_master_password e pw m) \<and> stored (user_salt m) \<noteq> []
      then Some (pbkdf2 e pw (stored (user_salt m))) else fer m)"
proof -
  obtain ok m' out where r: "verify_master_password e pw m = (ok, m', out)"
    by (cases "verify_master_password e pw m") 
  have "user_salt m' = user_salt m" "fer m' = fer m"
    using vmp_frame(1,2) [of e pw m] r by simp_all
  then show ?thesis
    using r by (simp add: load_key_def split: bool.splits)
qed

lemma reset_salt:
  "user_salt (reset_master_password e np m) =
     (if stored (user_salt m) = [] then Some (urandom e 16) else user_salt m)"
  by (simp add: reset_master_password_def Let_def update_master_password_def
      store_user_salt_def)

lemma reset_fer:
  "fer (reset_master_password e np m) =
     Some (pbkdf2 e np (stored (user_salt (reset_master_password e np m))))"
  by (simp add: reset_master_password_def Let_def update_master_password_def
      store_user_salt_def stored_def)

lemma reset_frame:
  "password_hash (reset_master_password e np m) = Some (ph_hash e np)"
  "sites (reset_master_password e np m) = sites m"
  "wallets (reset_master_password e np m) = wallets m"
  "failed_attempts (reset_master_password e np m) = failed_attempts m"
  "lockout_until (reset_master_password e np m) = lockout_until m"
  by (simp_all add: reset_master_password_def Let_def update_master_password_def
      store_user_salt_def)

text \<open>
  Claim C5, as stated, fails. The claim says that whenever the session key is derived
  with no salt stored, a salt is generated and stored first. \<open>load_key\<close> derives the
  session key at login, and for a user without a salt whose password verifies it raises
  \<open>ValueError("User salt not found")\<close>: no salt is stored and no key is set.
\<close>

theorem load_key_missing_salt_counterexample:
  "fst (verify_master_password toy_env ''Tr0ub4dor&3'' (alice\<lparr>user_salt := None\<rparr>))
   \<and> fst (load_key toy_env ''Tr0ub4dor&3'' (alice\<lparr>user_salt := None\<rparr>))
        = Inl (ValueError ''User salt not found'')
   \<and> user_salt (fst (snd (load_key toy_env ''Tr0ub4dor&3'' (alice\<lparr>user_salt := None\<rparr>)))) = None
   \<and> fer (fst (snd (load_key toy_env ''Tr0ub4dor&3'' (alice\<lparr>user_salt := None\<rparr>)))) = None"
  by (simp add: load_key_def verify_master_password_def reset_lockout_data_def toy_env_def
      alice_def stored_def toy_verify_def)

text \<open>
  Claim C5, amended. \<open>reset_master_password\<close> is the operation that repairs a
  missing salt: with no salt stored it stores 16 bytes of \<open>os.urandom\<close> and derives the
  key from these same bytes; with a salt stored it keeps the salt and derives the key
  from it, so a second reset finds the salt of the first. \<open>load_key\<close> never writes a
  salt: with a verified password it raises \<open>ValueError("User salt not found")\<close> when
  none is stored and leaves the key unset, and derives the key from the stored salt
  otherwise.
\<close>

theorem salt_self_heal_only_on_reset:
  "(stored (user_salt m) = [] \<longrightarrow>
      user_salt (reset_master_password e np m) = Some (urandom e 16)
      \<and> length (urandom e 16) = 16
      \<and> fer (reset_master_password e np m) = Some (pbkdf2 e np (urandom e 16)))
   \<and> (stored (user_salt m) \<noteq> [] \<longrightarrow>
      user_salt (reset_master_password e np m) = user_salt m
      \<and> fer (reset_master_password e np m) = Some (pbkdf2 e np (stored (user_salt m))))
   \<and> user_salt (reset_master_password e' np' (reset_master_password e np m))
       = user_salt (reset_master_password e np m)
   \<and> user_salt (fst (snd (load_key e pw m))) = user_salt m
   \<and> (fst (verify_master_password e pw m) \<and> stored (user_salt m) = [] \<longrightarrow>
      fst (load_key e pw m) = Inl (ValueError ''User salt not found'')
      \<and> fer (fst (snd (load_key e pw m))) = fer m)
   \<and> (fst (verify_master_password e pw m) \<and> stored (user_salt m) \<noteq> [] \<longrightarrow>
      fst (load_key e pw m) = Inr ()
      \<and> fer (fst (snd (load_key e pw m))) = Some (pbkdf2 e pw (stored (user_salt m))))"
proof -
  have nonempty: "stored (Some (urandom e 16)) \<noteq> []"
    using length_urandom [of e 16] by (auto simp: stored_def)
  have twice: "user_salt (reset_master_password e' np' (reset_master_password e np m))
       = user_salt (reset_master_password e np m)"
    using nonempty by (simp add: reset_salt)
  show ?thesis
    using twice
    by (simp add: reset_salt reset_fer length_urandom load_key_salt load_key_result
        load_key_fer stored_def)
qed

theorem salt_self_heal_only_on_reset_witness:
  "user_salt (reset_master_password toy_env ''new'' (alice\<lparr>user_salt := None\<rparr>))
     = Some [0, 1, 2, 3, 4, 5, 6, 7, 8, 9, 10, 11, 12, 13, 14, 15]
   \<and> user_salt (reset_master_password toy_env ''new'' alice) = user_salt alice
   \<and> fst (load_key toy_env ''Tr0ub4dor&3'' (alice\<lparr>user_salt := None\<rparr>))
        = Inl (ValueError ''User salt not found'')
   \<and> fst (load_key toy_env ''Tr0ub4dor&3'' alice) = Inr ()"
proof -
  have a: "stored (user_salt (alice\<lparr>user_salt := None\<rparr>)) = []"
    by (simp add: stored_def)
  have b: "stored (user_salt alice) \<noteq> []"
    by (simp add: stored_def alice_def)
  have c: "fst (verify_master_password toy_env ''Tr0ub4dor&3'' (alice\<lparr>user_salt := None\<rparr>))"
    "fst (verify_master_password toy_env ''Tr0ub4dor&3'' alice)"
    by (simp_all add: verify_master_password_def toy_env_def alice_def stored_def
        toy_verify_def)
  have d: "urandom toy_env 16 = [0, 1, 2, 3, 4, 5, 6, 7, 8, 9, 10, 11, 12, 13, 14, 15]"
    by (simp add: urandom_def toy_env_def upt_rec)
  show ?thesis
    using salt_self_heal_only_on_reset [of "alice\<lparr>user_salt := None\<rparr>" toy_env "''new''" _ _ "''Tr0ub4dor&3''"]
      salt_self_heal_only_on_reset [of alice toy_env "''new''" _ _ "''Tr0ub4dor&3''"] a b c d
    by simp
qed

subsection \<open>Stored fields\<close>

lemma get_credentials_result:
  "fst (get_credentials e site pw m) =
     (if \<not> fst (verify_master_password e pw m) then Inl (ValueError ''Invalid master password'')
      else case sites m site of
             None \<Rightarrow> Inr None
           | Some (r0, r1) \<Rightarrow>
               (case decrypt_field (fer m) r0 of
                  Inl err \<Rightarrow> Inl err
                | Inr du \<Rightarrow>
                    (case decrypt_field (fer m) r1 of
                       Inl err \<Rightarrow> Inl err
                     | Inr dp \<Rightarrow> Inr (Some (py_or du ''No username'', py_or dp ''No password'')))))"
proof -
  obtain ok m' out where r: "verify_master_password e pw m = (ok, m', out)"
    by (cases "verify_master_password e pw m")
  have "sites m' = sites m" "fer m' = fer m"
    using vmp_frame(2,3) [of e pw m] r by simp_all
  then show ?thesis
    using r by (simp add: get_credentials_def split: bool.splits option.splits sum.splits prod.splits)
qed

lemma add_credentials_sites:
  assumes "fer m = Some k"
  shows "sites (fst (snd (add_credentials e site uname password m))) site =
     Some (fernet_encrypt k (fernet_iv e 0) (if uname = ''0'' then [] else uname),
           fernet_encrypt k (fernet_iv e 1)
             (if py_lower (py_strip password) = ''gen''
              then (if generate_secure_password (choice_src e) 25 = ''0'' then []
                    else generate_secure_password (choice_src e) 25)
              else if password = ''0'' then [] else password))"
  using assms by (simp add: add_credentials_def Let_def store_site_def)

lemma add_wallet_wallets:
  assumes "fer m = Some k" and "fst (verify_recovery_pin e pin m) = Inr True"
  shows "wallets (fst (snd (add_wallet e w uname password phrase mp pin m))) w =
     Some (fernet_encrypt k (fernet_iv e 0) (if uname = ''0'' then [] else uname),
           fernet_encrypt k (fernet_iv e 1)
             (if py_lower (py_strip password) = ''gen''
              then (if generate_secure_password (choice_src e) 25 = ''0'' then []
                    else generate_secure_password (choice_src e) 25)
              else if password = ''0'' then [] else password),
           fernet_encrypt k (fernet_iv e 2) (if phrase = ''0'' then [] else phrase))"
  using assms by (simp add: add_wallet_def Let_def store_wallet_def)

lemma get_wallet_result:
  assumes "fst (verify_recovery_pin e pin m) = Inr True"
    and "wallets m w = Some (r0, r1, r2)"
  shows "get_wallet e w pw pin m =
     (case wallet_field (fer m) r0 of
        Inl err \<Rightarrow> (Inr None, m, [WalletErrorMsg err])
      | Inr du \<Rightarrow>
          (case wallet_field (fer m) r1 of
             Inl err \<Rightarrow> (Inr None, m, [WalletErrorMsg err])
           | Inr dp \<Rightarrow>
               (case wallet_field (fer m) r2 of
                  Inl err \<Rightarrow> (Inr None, m, [WalletErrorMsg err])
                | Inr dr \<Rightarrow>
                    (Inr (Some (py_or du ''No username'', py_or dp ''No password'',
                                py_or dr ''No recovery phrase'')), m, []))))"
  using assms by (simp add: get_wallet_def)

lemma length_alphabet: "length alphabet = 94"
  by (simp add: alphabet_def ascii_letters_def digits_def punctuation_def)

lemma distinct_alphabet: "distinct alphabet"
  by code_simp

lemma length_generate: "length (generate_secure_password src n) = n"
  by (simp add: generate_secure_password_def)

lemma set_generate: "set (generate_secure_password src n) \<subseteq> set alphabet"
  by (auto simp: generate_secure_password_def secrets_choice_def length_alphabet)

lemma generate_neq_sentinel: "generate_secure_password src 25 \<noteq> ''0''"
  using length_generate [of src 25] by auto

lemma generate_differs:
  assumes "i < n" and "src i mod 94 \<noteq> src' i mod 94"
  shows "generate_secure_password src n \<noteq> generate_secure_password src' n"
proof
  assume "generate_secure_password src n = generate_secure_password src' n"
  then have "generate_secure_password src n ! i = generate_secure_password src' n ! i"
    by simp
  then have "alphabet ! (src i mod 94) = alphabet ! (src' i mod 94)"
    using assms(1) by (simp add: generate_secure_password_def secrets_choice_def length_alphabet)
  then have "src i mod 94 = src' i mod 94"
    using distinct_alphabet by (simp add: nth_eq_iff_index_eq length_alphabet)
  with assms(2) show False by simp
qed

lemma session_key: "fer alice_session = Some (pbkdf2 toy_env ''Tr0ub4dor&3'' (stored (user_salt alice)))"
  by (simp add: alice_session_def)

lemma toy_pin: "recovery_pin m = Some ''h:123456'' \<Longrightarrow>
   fst (verify_recovery_pin toy_env ''123456'' m) = Inr True"
  by (simp add: verify_recovery_pin_def stored_def toy_env_def toy_verify_def)

lemma add_credentials_frame:
  "fer (fst (snd (add_credentials e site u p m))) = fer m"
  "recovery_pin (fst (snd (add_credentials e site u p m))) = recovery_pin m"
  "password_hash (fst (snd (add_credentials e site u p m))) = password_hash m"
  "user_salt (fst (snd (add_credentials e site u p m))) = user_salt m"
  "totp_secret (fst (snd (add_credentials e site u p m))) = totp_secret m"
  "lockout_until (fst (snd (add_credentials e site u p m))) = lockout_until m"
  "wallets (fst (snd (add_credentials e site u p m))) = wallets m"
  by (simp_all add: add_credentials_def Let_def store_site_def split: option.splits)

lemma add_wallet_frame:
  "fer (fst (snd (add_wallet e w u p r mp pin m))) = fer m"
  "recovery_pin (fst (snd (add_wallet e w u p r mp pin m))) = recovery_pin m"
  "password_hash (fst (snd (add_wallet e w u p r mp pin m))) = password_hash m"
  "user_salt (fst (snd (add_wallet e w u p r mp pin m))) = user_salt m"
  "totp_secret (fst (snd (add_wallet e w u p r mp pin m))) = totp_secret m"
  "lockout_until (fst (snd (add_wallet e w u p r mp pin m))) = lockout_until m"
  "sites (fst (snd (add_wallet e w u p r mp pin m))) = sites m"
  by (simp_all add: add_wallet_def Let_def store_wallet_def
      split: option.splits sum.splits bool.splits)

lemma reset_frame2:
  "recovery_pin (reset_master_password e np m) = recovery_pin m"
  "totp_secret (reset_master_password e np m) = totp_secret m"
  by (simp_all add: reset_master_password_def Let_def update_master_password_def
      store_user_salt_def)

text \<open>
  Claim C6. \<open>reset_master_password\<close> stores the hash of the new password, sets the
  session key to the key derived from the new password, and leaves every stored site
  and wallet as it was. When the new key differs from the key \<open>k\<close> under which a
  site's fields were encrypted, a later \<open>get_credentials\<close> whose authentication
  passes raises \<open>InvalidToken\<close>, the decryption error of Fernet, and returns no
  plaintext; \<open>get_wallet\<close> catches the same error, prints it and returns \<open>None\<close>.
\<close>

theorem reset_orphans_stored_fields:
  assumes changed: "fer (reset_master_password e np m) \<noteq> Some k"
  shows "password_hash (reset_master_password e np m) = Some (ph_hash e np)
       \<and> fer (reset_master_password e np m)
           = Some (pbkdf2 e np (stored (user_salt (reset_master_password e np m))))
       \<and> sites (reset_master_password e np m) = sites m
       \<and> wallets (reset_master_password e np m) = wallets m
       \<and> (sites m site = Some (Token k iva u, Token k ivb p)
            \<and> fst (verify_master_password e' np (reset_master_password e np m)) \<longrightarrow>
          fst (get_credentials e' site np (reset_master_password e np m)) = Inl InvalidToken)
       \<and> (wallets m w = Some (Token k ivc wu, Token k ivd wp, Token k ive wr)
            \<and> fst (verify_recovery_pin e' pin (reset_master_password e np m)) = Inr True \<longrightarrow>
          get_wallet e' w np pin (reset_master_password e np m)
            = (Inr None, reset_master_password e np m, [WalletErrorMsg InvalidToken]))"
proof -
  let ?m2 = "reset_master_password e np m"
  obtain k' where k': "fer ?m2 = Some k'" "k' \<noteq> k"
    using changed reset_fer [of e np m] by auto
  have site: "fst (get_credentials e' site np ?m2) = Inl InvalidToken"
    if "sites m site = Some (Token k iva u, Token k ivb p)"
      and "fst (verify_master_password e' np ?m2)"
  proof -
    have "sites ?m2 site = Some (Token k iva u, Token k ivb p)"
      using that(1) by (simp add: reset_frame)
    then show ?thesis
      using that(2) k' by (simp add: get_credentials_result decrypt_field_def)
  qed
  have wallet: "get_wallet e' w np pin ?m2 = (Inr None, ?m2, [WalletErrorMsg InvalidToken])"
    if "wallets m w = Some (Token k ivc wu, Token k ivd wp, Token k ive wr)"
      and "fst (verify_recovery_pin e' pin ?m2) = Inr True"
  proof -
    have "wallets ?m2 w = Some (Token k ivc wu, Token k ivd wp, Token k ive wr)"
      using that(1) by (simp add: reset_frame)
    then show ?thesis
      using get_wallet_result [OF that(2), of w _ _ _ np] k'
      by (simp add: wallet_field_def decrypt_field_def)
  qed
  show ?thesis
    using reset_fer [of e np m] site wallet by (simp add: reset_frame)
qed

theorem reset_orphans_stored_fields_witness:
  "fer (reset_master_password toy_env ''newpass'' alice_vault)
     \<noteq> Some (pbkdf2 toy_env ''Tr0ub4dor&3'' (stored (user_salt alice)))
   \<and> sites alice_vault ''example.com''
     = Some (Token (pbkdf2 toy_env ''Tr0ub4dor&3'' (stored (user_salt alice))) 0 ''alice'',
             Token (pbkdf2 toy_env ''Tr0ub4dor&3'' (stored (user_salt alice))) 1 ''s3cret'')
   \<and> fst (verify_master_password toy_env ''newpass''
            (reset_master_password toy_env ''newpass'' alice_vault))
   \<and> password_hash (reset_master_password toy_env ''newpass'' alice_vault) = Some ''h:newpass''
   \<and> fst (get_credentials toy_env ''example.com'' ''newpass''
            (reset_master_password toy_env ''newpass'' alice_vault)) = Inl InvalidToken
   \<and> fst (get_wallet toy_env ''btc'' ''newpass'' ''123456''
            (reset_master_password toy_env ''newpass'' alice_vault)) = Inr None"
proof -
  let ?k = "pbkdf2 toy_env ''Tr0ub4dor&3'' (stored (user_salt alice))"
  let ?m2 = "reset_master_password toy_env ''newpass'' alice_vault"
  have ng: "py_lower (py_strip ''s3cret'') \<noteq> ''gen''" "py_lower (py_strip ''0'') \<noteq> ''gen''"
    by (simp_all add: py_lower_def py_strip_def is_space_def lower_char_def)
  have iv: "fernet_iv toy_env 0 = 0" "fernet_iv toy_env 1 = 1" "fernet_iv toy_env 2 = 2"
    by (simp_all add: toy_env_def)
  have site: "sites alice_vault ''example.com'' = Some (Token ?k 0 ''alice'', Token ?k 1 ''s3cret'')"
    using add_credentials_sites [OF session_key, of toy_env "''example.com''" "''alice''" "''s3cret''"] ng iv
    by (simp add: alice_vault_def alice_site_def add_wallet_frame fernet_encrypt_def)
  have pin0: "fst (verify_recovery_pin toy_env ''123456'' alice_site) = Inr True"
    by (rule toy_pin) (simp add: alice_site_def add_credentials_frame alice_session_def alice_def)
  have key1: "fer alice_site = Some ?k"
    by (simp add: alice_site_def add_credentials_frame session_key)
  have wallet: "wallets alice_vault ''btc''
      = Some (Token ?k 0 ''satoshi'', Token ?k 1 [], Token ?k 2 [])"
    using add_wallet_wallets [OF key1 pin0, of "''btc''" "''satoshi''" "''0''" "''0''" "''Tr0ub4dor&3''"] ng iv
    by (simp add: alice_vault_def fernet_encrypt_def)
  have salt: "user_salt alice_vault = user_salt alice"
    by (simp add: alice_vault_def alice_site_def add_wallet_frame add_credentials_frame
        alice_session_def)
  have changed: "fer ?m2 \<noteq> Some ?k"
    by (simp add: reset_fer reset_salt salt stored_def alice_def toy_env_def)
  have h: "ph_hash toy_env ''newpass'' = ''h:newpass''"
    by (simp add: toy_env_def)
  have auth: "fst (verify_master_password toy_env ''newpass'' ?m2)"
    by (simp add: vmp_ok full_success_def reset_frame reset_frame2 h stored_def
        alice_vault_def alice_site_def add_wallet_frame add_credentials_frame
        alice_session_def alice_def)
      (simp add: toy_env_def toy_verify_def)
  have pin: "fst (verify_recovery_pin toy_env ''123456'' ?m2) = Inr True"
    by (rule toy_pin)
      (simp add: reset_frame2 alice_vault_def alice_site_def add_wallet_frame
        add_credentials_frame alice_session_def alice_def)
  show ?thesis
    using reset_orphans_stored_fields [OF changed, where site = "''example.com''" and iva = 0
        and u = "''alice''" and ivb = 1 and p = "''s3cret''" and e' = toy_env and w = "''btc''"
        and ivc = 0 and wu = "''satoshi''" and ivd = 1 and wp = "[]" and ive = 2 and wr = "[]"
        and pin = "''123456''"]
      changed site wallet auth pin h
    by simp
qed

text \<open>
  Claim C8. A user name or password \<open>"0"\<close> given to \<open>add_credentials\<close>, and a user
  name, password or recovery phrase \<open>"0"\<close> given to \<open>add_wallet\<close>, is stored as the
  encryption of the empty string under the session key.
\<close>

theorem sentinel_stored_as_empty:
  assumes "fer m = Some k"
  shows "map_option fst (sites (fst (snd (add_credentials e site ''0'' password m))) site)
           = Some (fernet_encrypt k (fernet_iv e 0) [])
       \<and> map_option snd (sites (fst (snd (add_credentials e site uname ''0'' m))) site)
           = Some (fernet_encrypt k (fernet_iv e 1) [])
       \<and> (fst (verify_recovery_pin e pin m) = Inr True \<longrightarrow>
            map_option fst (wallets (fst (snd (add_wallet e w ''0'' password phrase mp pin m))) w)
              = Some (fernet_encrypt k (fernet_iv e 0) [])
          \<and> map_option (fst \<circ> snd)
               (wallets (fst (snd (add_wallet e w uname ''0'' phrase mp pin m))) w)
              = Some (fernet_encrypt k (fernet_iv e 1) [])
          \<and> map_option (snd \<circ> snd)
               (wallets (fst (snd (add_wallet e w uname password ''0'' mp pin m))) w)
              = Some (fernet_encrypt k (fernet_iv e 2) []))"
proof -
  have ng: "py_lower (py_strip ''0'') \<noteq> ''gen''"
    by (simp add: py_lower_def py_strip_def is_space_def lower_char_def)
  show ?thesis
    using assms ng by (simp add: add_credentials_sites add_wallet_wallets)
qed

theorem sentinel_stored_as_empty_witness:
  "sites alice_empty ''example.com''
     = Some (Token (pbkdf2 toy_env ''Tr0ub4dor&3'' (stored (user_salt alice))) 0 [],
             Token (pbkdf2 toy_env ''Tr0ub4dor&3'' (stored (user_salt alice))) 1 [])
   \<and> wallets (fst (snd (add_wallet toy_env ''btc'' ''0'' ''0'' ''0'' ''Tr0ub4dor&3'' ''123456''
        alice_session))) ''btc''
     = Some (Token (pbkdf2 toy_env ''Tr0ub4dor&3'' (stored (user_salt alice))) 0 [],
             Token (pbkdf2 toy_env ''Tr0ub4dor&3'' (stored (user_salt alice))) 1 [],
             Token (pbkdf2 toy_env ''Tr0ub4dor&3'' (stored (user_salt alice))) 2 [])"
proof -
  let ?k = "pbkdf2 toy_env ''Tr0ub4dor&3'' (stored (user_salt alice))"
  have f: "fer alice_session = Some ?k"
    by (simp add: alice_session_def)
  have p: "fst (verify_recovery_pin toy_env ''123456'' alice_session) = Inr True"
    by (simp add: verify_recovery_pin_def alice_session_def alice_def stored_def toy_env_def
        toy_verify_def)
  have iv: "fernet_iv toy_env 0 = 0" "fernet_iv toy_env 1 = 1" "fernet_iv toy_env 2 = 2"
    by (simp_all add: toy_env_def)
  show ?thesis
    using sentinel_stored_as_empty [OF f, where e = toy_env and site = "''example.com''"
        and password = "''0''" and uname = "''0''" and pin = "''123456''" and w = "''btc''"
        and phrase = "''0''" and mp = "''Tr0ub4dor&3''"] p iv
    unfolding alice_empty_def
    by (auto simp: fernet_encrypt_def)
qed

text \<open>
  Claim C9. \<open>generate_secure_password\<close> returns 25 characters, each one of
  \<open>ascii_letters + digits + punctuation\<close>; two runs whose random choices differ at
  one of the 25 positions return different strings; and when the password given to
  \<open>add_credentials\<close> or \<open>add_wallet\<close> is \<open>gen\<close> after \<open>strip()\<close> and \<open>lower()\<close>, the
  password that is encrypted and stored is the generated one.
\<close>

theorem generated_password:
  "length (generate_secure_password src 25) = 25
   \<and> set (generate_secure_password src 25) \<subseteq> set (ascii_letters @ digits @ punctuation)
   \<and> (i < 25 \<and> src i mod 94 \<noteq> src' i mod 94 \<longrightarrow>
        generate_secure_password src 25 \<noteq> generate_secure_password src' 25)
   \<and> (fer m = Some k \<and> py_lower (py_strip password) = ''gen'' \<longrightarrow>
        map_option snd (sites (fst (snd (add_credentials e site uname password m))) site)
          = Some (fernet_encrypt k (fernet_iv e 1) (generate_secure_password (choice_src e) 25)))
   \<and> (fer m = Some k \<and> py_lower (py_strip password) = ''gen''
        \<and> fst (verify_recovery_pin e pin m) = Inr True \<longrightarrow>
        map_option (fst \<circ> snd)
          (wallets (fst (snd (add_wallet e w uname password phrase mp pin m))) w)
          = Some (fernet_encrypt k (fernet_iv e 1) (generate_secure_password (choice_src e) 25)))"
proof -
  have "set (generate_secure_password src 25) \<subseteq> set (ascii_letters @ digits @ punctuation)"
    using set_generate [of src 25] by (simp add: alphabet_def)
  then show ?thesis
    using generate_differs [of i 25 src src']
    by (simp add: length_generate add_credentials_sites add_wallet_wallets
        generate_neq_sentinel)
qed

theorem generated_password_witness:
  "choice_src toy_env 0 mod 94 \<noteq> other_choice 0 mod 94
   \<and> py_lower (py_strip '' Gen '') = ''gen''
   \<and> generate_secure_password (choice_src toy_env) 25 = ''abcdefghijklmnopqrstuvwxy''
   \<and> generate_secure_password other_choice 25 = ''bcdefghijklmnopqrstuvwxyz''
   \<and> generate_secure_password (choice_src toy_env) 25 \<noteq> generate_secure_password other_choice 25
   \<and> map_option snd (sites (fst (snd (add_credentials toy_env ''example.com'' ''alice'' '' Gen ''
         alice_session))) ''example.com'')
       = Some (Token (pbkdf2 toy_env ''Tr0ub4dor&3'' (stored (user_salt alice))) 1
                 ''abcdefghijklmnopqrstuvwxy'')
   \<and> map_option (fst \<circ> snd) (wallets (fst (snd (add_wallet toy_env ''btc'' ''satoshi'' '' Gen ''
         ''0'' ''Tr0ub4dor&3'' ''123456'' alice_session))) ''btc'')
       = Some (Token (pbkdf2 toy_env ''Tr0ub4dor&3'' (stored (user_salt alice))) 1
                 ''abcdefghijklmnopqrstuvwxy'')"
proof -
  have d: "choice_src toy_env 0 mod 94 \<noteq> other_choice 0 mod 94"
    by (simp add: toy_env_def other_choice_def)
  have a: "generate_secure_password (choice_src toy_env) 25 = ''abcdefghijklmnopqrstuvwxy''"
    by code_simp
  have b: "generate_secure_password other_choice 25 = ''bcdefghijklmnopqrstuvwxyz''"
    by code_simp
  have c: "py_lower (py_strip '' Gen '') = ''gen''"
    by code_simp
  have p: "fst (verify_recovery_pin toy_env ''123456'' alice_session) = Inr True"
    by (rule toy_pin) (simp add: alice_session_def alice_def)
  have iv: "fernet_iv toy_env 1 = 1"
    by (simp add: toy_env_def)
  show ?thesis
    using generated_password [where src = "choice_src toy_env" and src' = other_choice
        and i = 0 and m = alice_session and e = toy_env and password = "'' Gen ''"
        and k = "pbkdf2 toy_env ''Tr0ub4dor&3'' (stored (user_salt alice))"
        and site = "''example.com''" and uname = "''alice''" and pin = "''123456''"
        and w = "''btc''" and phrase = "''0''" and mp = "''Tr0ub4dor&3''"]
      generated_password [where src = "choice_src toy_env" and src' = other_choice
        and i = 0 and m = alice_session and e = toy_env and password = "'' Gen ''"
        and k = "pbkdf2 toy_env ''Tr0ub4dor&3'' (stored (user_salt alice))"
        and site = "''example.com''" and uname = "''satoshi''" and pin = "''123456''"
        and w = "''btc''" and phrase = "''0''" and mp = "''Tr0ub4dor&3''"]
      a b c d p iv session_key
    by (simp add: fernet_encrypt_def)
qed

text \<open>
  Claim C10. A field that decrypts to the empty string is returned by
  \<open>get_credentials\<close> and \<open>get_wallet\<close> as \<open>No username\<close>, \<open>No password\<close> or
  \<open>No recovery phrase\<close>; so credentials stored with the sentinel \<open>"0"\<close> in both
  fields are read back as the two placeholders, not as empty strings.
\<close>

theorem empty_fields_read_as_placeholders:
  "(fst (verify_master_password e pw m) \<and> sites m site = Some (r0, r1)
      \<and> decrypt_field (fer m) r0 = Inr du \<and> decrypt_field (fer m) r1 = Inr dp \<longrightarrow>
    fst (get_credentials e site pw m)
      = Inr (Some (if du = [] then ''No username'' else du,
                   if dp = [] then ''No password'' else dp)))
   \<and> (fst (verify_recovery_pin e pin m) = Inr True \<and> wallets m w = Some (w0, w1, w2)
      \<and> wallet_field (fer m) w0 = Inr wu \<and> wallet_field (fer m) w1 = Inr wp
      \<and> wallet_field (fer m) w2 = Inr wr \<longrightarrow>
    fst (get_wallet e w pw pin m)
      = Inr (Some (if wu = [] then ''No username'' else wu,
                   if wp = [] then ''No password'' else wp,
                   if wr = [] then ''No recovery phrase'' else wr)))
   \<and> (fer m = Some k
      \<and> fst (verify_master_password e' pw (fst (snd (add_credentials e site ''0'' ''0'' m)))) \<longrightarrow>
    fst (get_credentials e' site pw (fst (snd (add_credentials e site ''0'' ''0'' m))))
      = Inr (Some (''No username'', ''No password'')))"
proof -
  have ng: "py_lower (py_strip ''0'') \<noteq> ''gen''"
    by (simp add: py_lower_def py_strip_def is_space_def lower_char_def)
  have round: "fst (get_credentials e' site pw (fst (snd (add_credentials e site ''0'' ''0'' m))))
      = Inr (Some (''No username'', ''No password''))"
    if "fer m = Some k"
      and "fst (verify_master_password e' pw (fst (snd (add_credentials e site ''0'' ''0'' m))))"
  proof -
    have "fer (fst (snd (add_credentials e site ''0'' ''0'' m))) = Some k"
      using that(1) by (simp add: add_credentials_def Let_def store_site_def)
    then show ?thesis
      using that ng add_credentials_sites [OF that(1), of e site "''0''" "''0''"]
      by (simp add: get_credentials_result decrypt_field_def fernet_encrypt_def py_or_def)
  qed
  have wallet: "fst (get_wallet e w pw pin m)
      = Inr (Some (if wu = [] then ''No username'' else wu,
                   if wp = [] then ''No password'' else wp,
                   if wr = [] then ''No recovery phrase'' else wr))"
    if "fst (verify_recovery_pin e pin m) = Inr True" "wallets m w = Some (w0, w1, w2)"
      "wallet_field (fer m) w0 = Inr wu" "wallet_field (fer m) w1 = Inr wp"
      "wallet_field (fer m) w2 = Inr wr"
    using get_wallet_result [OF that(1,2), of pw] that(3-5) by (simp add: py_or_def)
  show ?thesis
    using round wallet by (simp add: get_credentials_result py_or_def)
qed

theorem empty_fields_read_as_placeholders_witness:
  "fst (get_credentials toy_env ''example.com'' ''Tr0ub4dor&3'' alice_empty)
     = Inr (Some (''No username'', ''No password''))
   \<and> fst (get_wallet toy_env ''btc'' ''Tr0ub4dor&3'' ''123456'' alice_blank_wallet)
     = Inr (Some (''No username'', ''No password'', ''No recovery phrase''))
   \<and> fst (get_credentials toy_env ''example.com'' ''Tr0ub4dor&3'' alice_site)
     = Inr (Some (''alice'', ''s3cret''))"
proof -
  let ?k = "pbkdf2 toy_env ''Tr0ub4dor&3'' (stored (user_salt alice))"
  have ng: "py_lower (py_strip ''s3cret'') \<noteq> ''gen''" "py_lower (py_strip ''0'') \<noteq> ''gen''"
    by (simp_all add: py_lower_def py_strip_def is_space_def lower_char_def)
  have iv: "fernet_iv toy_env 0 = 0" "fernet_iv toy_env 1 = 1" "fernet_iv toy_env 2 = 2"
    by (simp_all add: toy_env_def)
  have auth: "fst (verify_master_password toy_env ''Tr0ub4dor&3'' alice_empty)"
    "fst (verify_master_password toy_env ''Tr0ub4dor&3'' alice_site)"
    by (simp_all add: vmp_ok full_success_def alice_empty_def alice_site_def
        add_credentials_frame alice_session_def alice_def stored_def toy_env_def
        toy_verify_def)
  have pin0: "fst (verify_recovery_pin toy_env ''123456'' alice_session) = Inr True"
    by (rule toy_pin) (simp add: alice_session_def alice_def)
  have pin: "fst (verify_recovery_pin toy_env ''123456'' alice_blank_wallet) = Inr True"
    by (rule toy_pin) (simp add: alice_blank_wallet_def add_wallet_frame alice_session_def alice_def)
  have key: "fer alice_blank_wallet = Some ?k" "fer alice_site = Some ?k"
    by (simp_all add: alice_blank_wallet_def add_wallet_frame alice_site_def
        add_credentials_frame session_key)
  have site: "sites alice_site ''example.com'' = Some (Token ?k 0 ''alice'', Token ?k 1 ''s3cret'')"
    using add_credentials_sites [OF session_key, of toy_env "''example.com''" "''alice''" "''s3cret''"] ng iv
    by (simp add: alice_site_def fernet_encrypt_def)
  have wallet: "wallets alice_blank_wallet ''btc'' = Some (Token ?k 0 [], Token ?k 1 [], Token ?k 2 [])"
    using add_wallet_wallets [OF session_key pin0, of "''btc''" "''0''" "''0''" "''0''" "''Tr0ub4dor&3''"] ng iv
    by (simp add: alice_blank_wallet_def fernet_encrypt_def)
  have dec: "decrypt_field (Some ?k) (Token ?k 0 ''alice'') = Inr ''alice''"
    "decrypt_field (Some ?k) (Token ?k 1 ''s3cret'') = Inr ''s3cret''"
    "\<And>n. wallet_field (Some ?k) (Token ?k n []) = Inr []"
    by (simp_all add: decrypt_field_def wallet_field_def)
  show ?thesis
    using empty_fields_read_as_placeholders [where e = toy_env and pw = "''Tr0ub4dor&3''"
        and m = alice_site and site = "''example.com''" and ?r0.0 = "Token ?k 0 ''alice''"
        and ?r1.0 = "Token ?k 1 ''s3cret''" and du = "''alice''" and dp = "''s3cret''"
        and pin = "''''" and w = "''''"]
      empty_fields_read_as_placeholders [where e = toy_env and pw = "''Tr0ub4dor&3''"
        and m = alice_blank_wallet and pin = "''123456''" and w = "''btc''"
        and ?w0.0 = "Token ?k 0 []" and ?w1.0 = "Token ?k 1 []" and ?w2.0 = "Token ?k 2 []"
        and wu = "[]" and wp = "[]" and wr = "[]" and site = "''''"]
      empty_fields_read_as_placeholders [where e = toy_env and e' = toy_env
        and pw = "''Tr0ub4dor&3''" and m = alice_session and k = ?k
        and site = "''example.com''" and pin = "''''" and w = "''''"]
      auth pin key site wallet dec session_key
    unfolding alice_empty_def [symmetric]
    by simp
qed

end
